theory Spec2Isabelle
  imports Main
begin

section \<open>Formset views of mongogeneric (mongogeneric/formsets.py)\<close>

text \<open>
  The module is a family of mixin classes for class-based views. Every method is modelled
  by one function of the same name, prefixed with the class that defines it. A method
  that is looked up on \<open>self\<close> is resolved by the class of the view, as Python's method
  resolution order does for the four composed view classes of the module.

  What the module imports (the formset factory, the formset instances it produces, the
  document list mixin, the context mixin, the template rendering and the redirect
  response) is not part of the module: the values those collaborators build are
  represented by the arguments they were called with, and what they compute is a
  parameter of the model (the record \<open>env\<close>). Their exceptions are never caught by
  the module, so only runs in which they return are modelled.
\<close>

subsection \<open>Python values\<close>

datatype pyval =
    PNone
  | PBool bool
  | PInt int
  | PStr string
  | PList "pyval list"
  | PDict "(string \<times> pyval) list"
  | PObj string

text \<open>Python's truth value testing, as used by every \<open>if x:\<close> of the module. An opaque
  object or class (\<open>PObj\<close>) has the default truth value.\<close>

fun truthy :: "pyval \<Rightarrow> bool" where
  "truthy PNone = False"
| "truthy (PBool b) = b"
| "truthy (PInt i) = (i \<noteq> 0)"
| "truthy (PStr s) = (s \<noteq> [])"
| "truthy (PList xs) = (xs \<noteq> [])"
| "truthy (PDict kvs) = (kvs \<noteq> [])"
| "truthy (PObj n) = True"

type_synonym kwargs = "string \<rightharpoonup> pyval"

subsection \<open>The request and the view instance\<close>

text \<open>The part of the request the module reads: \<open>request.method\<close>, \<open>request.POST\<close>,
  \<open>request.FILES\<close> and the value of \<open>request.get_full_path()\<close>.\<close>

record request =
  "method" :: string
  POST :: pyval
  FILES :: pyval
  full_path :: string

text \<open>The attributes of a view instance. The first nine are the class attributes of
  \<open>BaseFormSetMixin\<close>, the next three those of \<open>DocumentFormSetMixin\<close>;
  \<open>request\<close> is bound by the framework and \<open>object_list\<close> by the document views.
  The attribute \<open>fields\<close> is written \<open>fields'\<close>.\<close>

record view =
  document :: pyval
  initial :: pyval
  form_class :: pyval
  formset_class :: pyval
  success_url :: pyval
  extra :: pyval
  max_num :: pyval
  can_order :: pyval
  can_delete :: pyval
  exclude :: pyval
  fields' :: pyval
  formfield_callback :: pyval
  request :: request
  object_list :: pyval

text \<open>The class attributes as the module declares them.\<close>

definition default_view :: "request \<Rightarrow> view" where
  "default_view r =
     \<lparr>document = PNone, initial = PList [], form_class = PNone, formset_class = PNone,
      success_url = PNone, extra = PInt 2, max_num = PNone, can_order = PBool False,
      can_delete = PBool False, exclude = PNone, fields' = PNone,
      formfield_callback = PNone, request = r, object_list = PNone\<rparr>"

text \<open>The four composed view classes.\<close>

datatype view_class =
    BaseFormSetView
  | FormSetView
  | BaseDocumentFormSetView
  | DocumentFormSetView

text \<open>Whether \<open>DocumentFormSetMixin\<close> is among the bases of the class.\<close>

fun is_document :: "view_class \<Rightarrow> bool" where
  "is_document BaseFormSetView = False"
| "is_document FormSetView = False"
| "is_document BaseDocumentFormSetView = True"
| "is_document DocumentFormSetView = True"

subsection \<open>Values built by the collaborators\<close>

text \<open>A formset class is what \<open>documentformset_factory\<close> returned: it is represented
  by the positional and the keyword arguments of that call. A formset instance is
  represented by its class and the keyword arguments of its construction.\<close>

record formset_cls =
  fc_args :: "pyval list"
  fc_kwargs :: kwargs

record formset =
  fs_cls :: formset_cls
  fs_kwargs :: kwargs

datatype ctxval = Val pyval | FormsetVal formset

type_synonym "context" = "string \<rightharpoonup> ctxval"

datatype response =
    HttpResponseRedirect pyval
  | TemplateResponse "context"

text \<open>The calls to collaborators and the assignments to \<open>self.object_list\<close>, in the
  order in which a handler performs them.\<close>

datatype step =
    QuerysetFetched
  | ObjectListAssigned pyval
  | FactoryCalled formset_cls
  | FormsetConstructed formset
  | IsValidCalled formset
  | SaveCalled formset
  | Rendered "context"
  | Redirected pyval

record state =
  self :: view
  trace :: "step list"

text \<open>What the collaborators compute for the current request:
  \<open>get_queryset\<close> and \<open>get_context_object_name\<close> of \<open>MultipleDocumentsMixin\<close>
  (the latter returns a name or \<open>None\<close>), \<open>get_context_data\<close> of \<open>ContextMixin\<close>,
  and \<open>is_valid()\<close> and \<open>save()\<close> of a formset instance.\<close>

record env =
  get_queryset :: "view \<Rightarrow> pyval"
  get_context_object_name :: "view \<Rightarrow> pyval \<Rightarrow> string option"
  ContextMixin_get_context_data :: "view \<Rightarrow> context \<Rightarrow> context"
  is_valid :: "formset \<Rightarrow> bool"
  save :: "formset \<Rightarrow> pyval"

definition log :: "step \<Rightarrow> state \<Rightarrow> state" where
  "log e s = s\<lparr>trace := trace s @ [e]\<rparr>"

subsection \<open>BaseFormSetMixin\<close>

definition BaseFormSetMixin_get_initial :: "view \<Rightarrow> pyval" where
  "BaseFormSetMixin_get_initial v = initial v"

definition BaseFormSetMixin_get_formset_class :: "view \<Rightarrow> pyval" where
  "BaseFormSetMixin_get_formset_class v = formset_class v"

definition BaseFormSetMixin_get_form_class :: "view \<Rightarrow> pyval" where
  "BaseFormSetMixin_get_form_class v = form_class v"

definition BaseFormSetMixin_get_formset_kwargs :: "view \<Rightarrow> kwargs" where
  "BaseFormSetMixin_get_formset_kwargs v =
     (let kwargs = Map.empty in
      if method (request v) \<in> set [''POST'', ''PUT'']
      then kwargs ++ [''data'' \<mapsto> POST (request v), ''files'' \<mapsto> FILES (request v)]
      else kwargs)"

definition BaseFormSetMixin_get_factory_kwargs :: "view \<Rightarrow> kwargs" where
  "BaseFormSetMixin_get_factory_kwargs v =
     (let kwargs = [''extra'' \<mapsto> extra v, ''max_num'' \<mapsto> max_num v,
                    ''can_order'' \<mapsto> can_order v, ''can_delete'' \<mapsto> can_delete v] in
      if truthy (BaseFormSetMixin_get_formset_class v)
      then kwargs(''formset'' \<mapsto> BaseFormSetMixin_get_formset_class v)
      else kwargs)"

text \<open>The assignment \<open>self.object_list = x\<close>.\<close>

definition assign_object_list :: "pyval \<Rightarrow> state \<Rightarrow> state" where
  "assign_object_list x s =
     log (ObjectListAssigned x) (s\<lparr>self := (self s)\<lparr>object_list := x\<rparr>\<rparr>)"

subsection \<open>FormSetMixin\<close>

definition FormSetMixin_get_success_url :: "view \<Rightarrow> pyval" where
  "FormSetMixin_get_success_url v =
     (if truthy (success_url v) then success_url v
      else PStr (full_path (request v)))"

definition FormSetMixin_formset_valid :: "state \<Rightarrow> formset \<Rightarrow> response \<times> state" where
  "FormSetMixin_formset_valid s formset =
     (let url = FormSetMixin_get_success_url (self s)
      in (HttpResponseRedirect url, log (Redirected url) s))"

subsection \<open>DocumentFormSetMixin\<close>

text \<open>The local dictionary \<open>context\<close> of \<open>DocumentFormSetMixin.get_context_data\<close> after
  \<open>context.update(kwargs)\<close>: what the method hands to \<open>ContextMixin.get_context_data\<close>.\<close>

definition DocumentFormSetMixin_context :: "env \<Rightarrow> view \<Rightarrow> context \<Rightarrow> context" where
  "DocumentFormSetMixin_context env v kwargs =
     (let context = Map.empty;
          context =
            (if truthy (object_list v)
             then (let context = context(''object_list'' \<mapsto> Val (object_list v))
                   in (case get_context_object_name env v (object_list v) of
                         None \<Rightarrow> context
                       | Some context_object_name \<Rightarrow>
                           if context_object_name \<noteq> []
                           then context(context_object_name \<mapsto> Val (object_list v))
                           else context))
             else context)
      in context ++ kwargs)"

definition DocumentFormSetMixin_get_context_data :: "env \<Rightarrow> view \<Rightarrow> context \<Rightarrow> context" where
  "DocumentFormSetMixin_get_context_data env v kwargs =
     ContextMixin_get_context_data env v (DocumentFormSetMixin_context env v kwargs)"

definition DocumentFormSetMixin_get_formset_kwargs :: "env \<Rightarrow> state \<Rightarrow> kwargs \<times> state" where
  "DocumentFormSetMixin_get_formset_kwargs env s =
     (let kwargs = BaseFormSetMixin_get_formset_kwargs (self s);
          queryset = get_queryset env (self s);
          s = log QuerysetFetched s
      in (kwargs(''queryset'' \<mapsto> queryset), s))"

definition DocumentFormSetMixin_get_factory_kwargs :: "view \<Rightarrow> kwargs" where
  "DocumentFormSetMixin_get_factory_kwargs v =
     (let kwargs = BaseFormSetMixin_get_factory_kwargs v;
          kwargs = kwargs ++ [''exclude'' \<mapsto> exclude v, ''fields'' \<mapsto> fields' v,
                              ''formfield_callback'' \<mapsto> formfield_callback v];
          kwargs = (if truthy (BaseFormSetMixin_get_form_class v)
                    then kwargs(''form'' \<mapsto> BaseFormSetMixin_get_form_class v)
                    else kwargs)
      in if truthy (BaseFormSetMixin_get_formset_class v)
         then kwargs(''formset'' \<mapsto> BaseFormSetMixin_get_formset_class v)
         else kwargs)"

subsection \<open>Methods looked up on self\<close>

text \<open>\<open>DocumentFormSetMixin\<close> overrides \<open>get_context_data\<close>, \<open>get_formset_kwargs\<close>,
  \<open>get_factory_kwargs\<close>, \<open>get_formset\<close> and \<open>formset_valid\<close>; the other view classes
  inherit them from \<open>ContextMixin\<close>, \<open>BaseFormSetMixin\<close> and \<open>FormSetMixin\<close>.\<close>

definition get_context_data :: "view_class \<Rightarrow> env \<Rightarrow> view \<Rightarrow> context \<Rightarrow> context" where
  "get_context_data cls env v kwargs =
     (if is_document cls then DocumentFormSetMixin_get_context_data env v kwargs
      else ContextMixin_get_context_data env v kwargs)"

definition get_formset_kwargs :: "view_class \<Rightarrow> env \<Rightarrow> state \<Rightarrow> kwargs \<times> state" where
  "get_formset_kwargs cls env s =
     (if is_document cls then DocumentFormSetMixin_get_formset_kwargs env s
      else (BaseFormSetMixin_get_formset_kwargs (self s), s))"

definition get_factory_kwargs :: "view_class \<Rightarrow> view \<Rightarrow> kwargs" where
  "get_factory_kwargs cls v =
     (if is_document cls then DocumentFormSetMixin_get_factory_kwargs v
      else BaseFormSetMixin_get_factory_kwargs v)"

text \<open>\<open>get_formset\<close> calls \<open>documentformset_factory\<close>: \<open>BaseFormSetMixin\<close> passes the
  document and the form class by position, \<open>DocumentFormSetMixin\<close> the document only.\<close>

definition BaseFormSetMixin_get_formset :: "view_class \<Rightarrow> state \<Rightarrow> formset_cls \<times> state" where
  "BaseFormSetMixin_get_formset cls s =
     (let fc = \<lparr>fc_args = [document (self s), BaseFormSetMixin_get_form_class (self s)],
                fc_kwargs = get_factory_kwargs cls (self s)\<rparr>
      in (fc, log (FactoryCalled fc) s))"

definition DocumentFormSetMixin_get_formset :: "view_class \<Rightarrow> state \<Rightarrow> formset_cls \<times> state" where
  "DocumentFormSetMixin_get_formset cls s =
     (let fc = \<lparr>fc_args = [document (self s)],
                fc_kwargs = get_factory_kwargs cls (self s)\<rparr>
      in (fc, log (FactoryCalled fc) s))"

definition get_formset :: "view_class \<Rightarrow> state \<Rightarrow> formset_cls \<times> state" where
  "get_formset cls s =
     (if is_document cls then DocumentFormSetMixin_get_formset cls s
      else BaseFormSetMixin_get_formset cls s)"

text \<open>\<open>construct_formset\<close> evaluates the formset class first, then the initial values,
  then the keyword arguments, and calls the class with \<open>initial\<close> added to them (the
  keyword arguments of the module never hold \<open>initial\<close> themselves).\<close>

definition BaseFormSetMixin_construct_formset ::
    "view_class \<Rightarrow> env \<Rightarrow> state \<Rightarrow> formset \<times> state" where
  "BaseFormSetMixin_construct_formset cls env s =
     (let (fc, s) = get_formset cls s;
          init = BaseFormSetMixin_get_initial (self s);
          (kwargs, s) = get_formset_kwargs cls env s;
          formset = \<lparr>fs_cls = fc, fs_kwargs = kwargs(''initial'' \<mapsto> init)\<rparr>
      in (formset, log (FormsetConstructed formset) s))"

text \<open>\<open>render_to_response\<close> belongs to the template mixin the view is composed with; the
  response is represented by the context it was given.\<close>

definition FormSetMixin_formset_invalid ::
    "view_class \<Rightarrow> env \<Rightarrow> state \<Rightarrow> formset \<Rightarrow> response \<times> state" where
  "FormSetMixin_formset_invalid cls env s formset =
     (let ctx = get_context_data cls env (self s) [''formset'' \<mapsto> FormsetVal formset]
      in (TemplateResponse ctx, log (Rendered ctx) s))"

definition DocumentFormSetMixin_formset_valid ::
    "env \<Rightarrow> state \<Rightarrow> formset \<Rightarrow> response \<times> state" where
  "DocumentFormSetMixin_formset_valid env s formset =
     (let s = log (SaveCalled formset) s;
          s = assign_object_list (save env formset) s
      in FormSetMixin_formset_valid s formset)"

definition formset_valid :: "view_class \<Rightarrow> env \<Rightarrow> state \<Rightarrow> formset \<Rightarrow> response \<times> state" where
  "formset_valid cls env s formset =
     (if is_document cls then DocumentFormSetMixin_formset_valid env s formset
      else FormSetMixin_formset_valid s formset)"

subsection \<open>ProcessFormSetView and BaseDocumentFormSetView\<close>

definition ProcessFormSetView_get :: "view_class \<Rightarrow> env \<Rightarrow> state \<Rightarrow> response \<times> state" where
  "ProcessFormSetView_get cls env s =
     (let (formset, s) = BaseFormSetMixin_construct_formset cls env s;
          ctx = get_context_data cls env (self s) [''formset'' \<mapsto> FormsetVal formset]
      in (TemplateResponse ctx, log (Rendered ctx) s))"

definition ProcessFormSetView_post :: "view_class \<Rightarrow> env \<Rightarrow> state \<Rightarrow> response \<times> state" where
  "ProcessFormSetView_post cls env s =
     (let (formset, s) = BaseFormSetMixin_construct_formset cls env s;
          s = log (IsValidCalled formset) s
      in if is_valid env formset then formset_valid cls env s formset
         else FormSetMixin_formset_invalid cls env s formset)"

text \<open>The first statement of both handlers of \<open>BaseDocumentFormSetView\<close>:
  \<open>self.object_list = self.get_queryset()\<close>.\<close>

definition fetch_object_list :: "env \<Rightarrow> state \<Rightarrow> state" where
  "fetch_object_list env s =
     (let queryset = get_queryset env (self s);
          s = log QuerysetFetched s
      in assign_object_list queryset s)"

definition BaseDocumentFormSetView_get :: "view_class \<Rightarrow> env \<Rightarrow> state \<Rightarrow> response \<times> state" where
  "BaseDocumentFormSetView_get cls env s =
     (let s = fetch_object_list env s
      in ProcessFormSetView_get cls env s)"

definition BaseDocumentFormSetView_post :: "view_class \<Rightarrow> env \<Rightarrow> state \<Rightarrow> response \<times> state" where
  "BaseDocumentFormSetView_post cls env s =
     (let s = fetch_object_list env s
      in ProcessFormSetView_post cls env s)"

text \<open>The handlers \<open>self.get\<close> and \<open>self.post\<close> of a view of class \<open>cls\<close>.\<close>

definition get :: "view_class \<Rightarrow> env \<Rightarrow> state \<Rightarrow> response \<times> state" where
  "get cls env s =
     (if is_document cls then BaseDocumentFormSetView_get cls env s
      else ProcessFormSetView_get cls env s)"

definition post :: "view_class \<Rightarrow> env \<Rightarrow> state \<Rightarrow> response \<times> state" where
  "post cls env s =
     (if is_document cls then BaseDocumentFormSetView_post cls env s
      else ProcessFormSetView_post cls env s)"

definition ProcessFormSetView_put :: "view_class \<Rightarrow> env \<Rightarrow> state \<Rightarrow> response \<times> state" where
  "ProcessFormSetView_put cls env s = post cls env s"

subsection \<open>A concrete view, request and set of collaborators\<close>

text \<open>A request for \<open>/articles/?page=2\<close> with one submitted row, a view configured for
  a document \<open>Article\<close>, and collaborators: the query yields two documents, the list is
  named \<open>article_list\<close>, the base context is the keyword arguments themselves, the
  formset validates as \<open>valid\<close> says and \<open>save()\<close> returns one saved document.\<close>

definition sample_request :: "string \<Rightarrow> request" where
  "sample_request m =
     \<lparr>method = m, POST = PDict [(''form-TOTAL_FORMS'', PStr ''1'')], FILES = PDict [],
      full_path = ''/articles/?page=2''\<rparr>"

definition sample_view :: "string \<Rightarrow> view" where
  "sample_view m = (default_view (sample_request m))\<lparr>document := PObj ''Article''\<rparr>"

definition sample_state :: "string \<Rightarrow> state" where
  "sample_state m = \<lparr>self = sample_view m, trace = []\<rparr>"

definition sample_env :: "bool \<Rightarrow> env" where
  "sample_env valid =
     \<lparr>get_queryset = (\<lambda>v. PList [PObj ''article1'', PObj ''article2'']),
      get_context_object_name = (\<lambda>v object_list. Some ''article_list''),
      ContextMixin_get_context_data = (\<lambda>v kwargs. kwargs),
      is_valid = (\<lambda>formset. valid),
      save = (\<lambda>formset. PList [PObj ''article1''])\<rparr>"

definition sample_formset :: formset where
  "sample_formset =
     \<lparr>fs_cls = \<lparr>fc_args = [PObj ''Article''], fc_kwargs = Map.empty\<rparr>,
      fs_kwargs = [''data'' \<mapsto> PDict [(''form-TOTAL_FORMS'', PStr ''1'')]]\<rparr>"

text \<open>The same view state with the request method replaced: \<open>request.POST\<close>,
  \<open>request.FILES\<close> and the path stay as they are in the request.\<close>

definition set_method :: "string \<Rightarrow> state \<Rightarrow> state" where
  "set_method m s = s\<lparr>self := (self s)\<lparr>request := (request (self s))\<lparr>method := m\<rparr>\<rparr>\<rparr>"



text \<open>The same collaborators, with a document list that has no name of its own:
  \<open>get_context_object_name\<close> returns \<open>None\<close>.\<close>

definition sample_env_unnamed :: env where
  "sample_env_unnamed = (sample_env True)\<lparr>get_context_object_name := (\<lambda>v object_list. None)\<rparr>"

section \<open>Properties\<close>

lemmas sample_defs =
  sample_request_def sample_view_def sample_state_def sample_env_def sample_formset_def
  default_view_def

subsection \<open>Auxiliary facts\<close>

lemma get_success_url_object_list:
  "FormSetMixin_get_success_url (v\<lparr>object_list := x\<rparr>) = FormSetMixin_get_success_url v"
  by (simp add: FormSetMixin_get_success_url_def)

lemma formset_valid_document:
  "is_document cls \<Longrightarrow>
     formset_valid cls env s fs =
       (HttpResponseRedirect (FormSetMixin_get_success_url (self s)),
        s\<lparr>self := (self s)\<lparr>object_list := save env fs\<rparr>,
          trace := trace s @ [SaveCalled fs, ObjectListAssigned (save env fs),
                              Redirected (FormSetMixin_get_success_url (self s))]\<rparr>)"
  by (simp add: formset_valid_def DocumentFormSetMixin_formset_valid_def
      FormSetMixin_formset_valid_def assign_object_list_def log_def Let_def
      get_success_url_object_list)

lemma construct_formset_self:
  "self (snd (BaseFormSetMixin_construct_formset cls env s)) = self s"
  by (simp add: BaseFormSetMixin_construct_formset_def get_formset_def
      BaseFormSetMixin_get_formset_def DocumentFormSetMixin_get_formset_def
      get_formset_kwargs_def DocumentFormSetMixin_get_formset_kwargs_def log_def Let_def
      split: prod.splits)

lemma construct_formset_fs_kwargs:
  "fs_kwargs (fst (BaseFormSetMixin_construct_formset cls env s)) =
     (if is_document cls
      then (BaseFormSetMixin_get_formset_kwargs (self s))
             (''queryset'' \<mapsto> get_queryset env (self s), ''initial'' \<mapsto> initial (self s))
      else (BaseFormSetMixin_get_formset_kwargs (self s))(''initial'' \<mapsto> initial (self s)))"
  by (simp add: BaseFormSetMixin_construct_formset_def get_formset_def
      BaseFormSetMixin_get_formset_def DocumentFormSetMixin_get_formset_def
      get_formset_kwargs_def DocumentFormSetMixin_get_formset_kwargs_def log_def Let_def
      BaseFormSetMixin_get_initial_def split: prod.splits)

lemma construct_formset_fs_cls:
  "fs_cls (fst (BaseFormSetMixin_construct_formset cls env s)) =
     \<lparr>fc_args = (if is_document cls then [document (self s)]
                 else [document (self s), form_class (self s)]),
      fc_kwargs = get_factory_kwargs cls (self s)\<rparr>"
  by (simp add: BaseFormSetMixin_construct_formset_def get_formset_def
      BaseFormSetMixin_get_formset_def DocumentFormSetMixin_get_formset_def
      get_formset_kwargs_def DocumentFormSetMixin_get_formset_kwargs_def log_def Let_def
      BaseFormSetMixin_get_form_class_def split: prod.splits)

lemma construct_formset_trace:
  "trace (snd (BaseFormSetMixin_construct_formset cls env s)) =
     trace s @
       FactoryCalled (fs_cls (fst (BaseFormSetMixin_construct_formset cls env s))) #
       (if is_document cls then [QuerysetFetched] else []) @
       [FormsetConstructed (fst (BaseFormSetMixin_construct_formset cls env s))]"
  by (simp add: BaseFormSetMixin_construct_formset_def get_formset_def
      BaseFormSetMixin_get_formset_def DocumentFormSetMixin_get_formset_def
      get_formset_kwargs_def DocumentFormSetMixin_get_formset_kwargs_def log_def Let_def
      split: prod.splits)

lemma construct_formset_fst:
  "fst (BaseFormSetMixin_construct_formset cls env s) =
     \<lparr>fs_cls = \<lparr>fc_args = (if is_document cls then [document (self s)]
                           else [document (self s), form_class (self s)]),
                fc_kwargs = get_factory_kwargs cls (self s)\<rparr>,
      fs_kwargs =
        (if is_document cls
         then (BaseFormSetMixin_get_formset_kwargs (self s))
                (''queryset'' \<mapsto> get_queryset env (self s), ''initial'' \<mapsto> initial (self s))
         else (BaseFormSetMixin_get_formset_kwargs (self s))(''initial'' \<mapsto> initial (self s)))\<rparr>"
  by (simp add: BaseFormSetMixin_construct_formset_def get_formset_def
      BaseFormSetMixin_get_formset_def DocumentFormSetMixin_get_formset_def
      get_formset_kwargs_def DocumentFormSetMixin_get_formset_kwargs_def log_def Let_def
      BaseFormSetMixin_get_initial_def BaseFormSetMixin_get_form_class_def
      split: prod.splits)

lemma post_unfold:
  "post cls env s =
     ProcessFormSetView_post cls env
       (if is_document cls then fetch_object_list env s else s)"
  by (simp add: post_def BaseDocumentFormSetView_post_def Let_def)

lemma get_unfold:
  "get cls env s =
     ProcessFormSetView_get cls env
       (if is_document cls then fetch_object_list env s else s)"
  by (simp add: get_def BaseDocumentFormSetView_get_def Let_def)

lemma post_invalid:
  assumes that: "\<not> is_valid env (fst (BaseFormSetMixin_construct_formset cls env s))"
  shows "ProcessFormSetView_post cls env s =
     (let formset = fst (BaseFormSetMixin_construct_formset cls env s);
          s1 = snd (BaseFormSetMixin_construct_formset cls env s);
          ctx = get_context_data cls env (self s) [''formset'' \<mapsto> FormsetVal formset]
      in (TemplateResponse ctx,
          s1\<lparr>trace := trace s1 @ [IsValidCalled formset, Rendered ctx]\<rparr>))"
proof -
  obtain formset s1 where c: "BaseFormSetMixin_construct_formset cls env s = (formset, s1)"
    by (cases "BaseFormSetMixin_construct_formset cls env s")
  have "self s1 = self s"
    using construct_formset_self [of cls env s] c by simp
  with c that show ?thesis
    by (simp add: ProcessFormSetView_post_def FormSetMixin_formset_invalid_def log_def Let_def)
qed

lemma post_valid:
  "is_valid env (fst (BaseFormSetMixin_construct_formset cls env s)) \<Longrightarrow>
   ProcessFormSetView_post cls env s =
     (let formset = fst (BaseFormSetMixin_construct_formset cls env s);
          s1 = snd (BaseFormSetMixin_construct_formset cls env s)
      in formset_valid cls env (log (IsValidCalled formset) s1) formset)"
  by (cases "BaseFormSetMixin_construct_formset cls env s")
    (simp add: ProcessFormSetView_post_def Let_def)

lemma formset_valid_other:
  "\<not> is_document cls \<Longrightarrow>
     formset_valid cls env s fs =
       (HttpResponseRedirect (FormSetMixin_get_success_url (self s)),
        s\<lparr>trace := trace s @ [Redirected (FormSetMixin_get_success_url (self s))]\<rparr>)"
  by (simp add: formset_valid_def FormSetMixin_formset_valid_def log_def Let_def)

lemma ProcessFormSetView_get_explicit:
  "ProcessFormSetView_get cls env s =
     (let formset = fst (BaseFormSetMixin_construct_formset cls env s);
          s1 = snd (BaseFormSetMixin_construct_formset cls env s);
          ctx = get_context_data cls env (self s) [''formset'' \<mapsto> FormsetVal formset]
      in (TemplateResponse ctx, s1\<lparr>trace := trace s1 @ [Rendered ctx]\<rparr>))"
proof -
  obtain formset s1 where c: "BaseFormSetMixin_construct_formset cls env s = (formset, s1)"
    by (cases "BaseFormSetMixin_construct_formset cls env s")
  have "self s1 = self s"
    using construct_formset_self [of cls env s] c by simp
  with c show ?thesis
    by (simp add: ProcessFormSetView_get_def log_def Let_def)
qed

lemma fetch_object_list_explicit:
  "fetch_object_list env s =
     s\<lparr>self := (self s)\<lparr>object_list := get_queryset env (self s)\<rparr>,
       trace := trace s @ [QuerysetFetched, ObjectListAssigned (get_queryset env (self s))]\<rparr>"
  by (simp add: fetch_object_list_def assign_object_list_def log_def Let_def)

subsection \<open>Saving on success\<close>

text \<open>
  Claim C1. In a document formset view, \<open>formset_valid\<close> calls the formset's \<open>save()\<close>,
  assigns what it returns to \<open>self.object_list\<close> and then runs the success handler of
  \<open>FormSetMixin\<close> on the updated view: the response is a redirect to the success URL,
  the new \<open>object_list\<close> is exactly the value \<open>save()\<close> returned, and the steps are
  the save, the assignment and the redirect, in this order. \<open>ProcessFormSetView.post\<close>
  reaches \<open>formset_valid\<close> with the formset it constructed whenever that formset
  validates.
\<close>

theorem formset_valid_saves_then_redirects:
  assumes "is_document cls"
  shows "formset_valid cls env s fs =
           FormSetMixin_formset_valid
             (assign_object_list (save env fs) (log (SaveCalled fs) s)) fs
       \<and> object_list (self (snd (formset_valid cls env s fs))) = save env fs
       \<and> fst (formset_valid cls env s fs) =
           HttpResponseRedirect (FormSetMixin_get_success_url (self s))
       \<and> trace (snd (formset_valid cls env s fs)) =
           trace s @ [SaveCalled fs, ObjectListAssigned (save env fs),
                      Redirected (FormSetMixin_get_success_url (self s))]
       \<and> (case BaseFormSetMixin_construct_formset cls env s of (formset, s1) \<Rightarrow>
             is_valid env formset \<longrightarrow>
               ProcessFormSetView_post cls env s =
                 formset_valid cls env (log (IsValidCalled formset) s1) formset)"
proof (intro conjI)
  show "formset_valid cls env s fs =
          FormSetMixin_formset_valid
            (assign_object_list (save env fs) (log (SaveCalled fs) s)) fs"
    using assms
    by (simp add: formset_valid_def DocumentFormSetMixin_formset_valid_def Let_def)
  show "case BaseFormSetMixin_construct_formset cls env s of (formset, s1) \<Rightarrow>
          is_valid env formset \<longrightarrow>
            ProcessFormSetView_post cls env s =
              formset_valid cls env (log (IsValidCalled formset) s1) formset"
    by (simp add: ProcessFormSetView_post_def Let_def split: prod.splits)
qed (simp_all add: formset_valid_document [OF assms])

theorem formset_valid_saves_then_redirects_witness:
  "is_document DocumentFormSetView
   \<and> object_list (self (snd (formset_valid DocumentFormSetView (sample_env True)
          (sample_state ''POST'') sample_formset))) = PList [PObj ''article1'']
   \<and> fst (formset_valid DocumentFormSetView (sample_env True)
          (sample_state ''POST'') sample_formset) =
        HttpResponseRedirect (PStr ''/articles/?page=2'')
   \<and> trace (snd (formset_valid DocumentFormSetView (sample_env True)
          (sample_state ''POST'') sample_formset)) =
        [SaveCalled sample_formset, ObjectListAssigned (PList [PObj ''article1'']),
         Redirected (PStr ''/articles/?page=2'')]"
  using formset_valid_saves_then_redirects
          [of DocumentFormSetView "sample_env True" "sample_state ''POST''" sample_formset]
  by (simp add: sample_defs FormSetMixin_get_success_url_def FormSetMixin_formset_valid_def
      assign_object_list_def log_def Let_def)

subsection \<open>Failed validation\<close>

lemma fetch_object_list_request:
  "request (self (fetch_object_list env s)) = request (self s)"
  by (simp add: fetch_object_list_explicit)

lemma formset_kwargs_submitted:
  "method (request v) \<in> {''POST'', ''PUT''} \<Longrightarrow>
     BaseFormSetMixin_get_formset_kwargs v =
       [''data'' \<mapsto> POST (request v), ''files'' \<mapsto> FILES (request v)]"
  by (auto simp add: BaseFormSetMixin_get_formset_kwargs_def Let_def)

lemma formset_kwargs_not_submitted:
  "method (request v) \<notin> {''POST'', ''PUT''} \<Longrightarrow>
     BaseFormSetMixin_get_formset_kwargs v = Map.empty"
  by (simp add: BaseFormSetMixin_get_formset_kwargs_def Let_def)

lemma context_keeps_kwargs:
  "kwargs k = Some x \<Longrightarrow> DocumentFormSetMixin_context env v kwargs k = Some x"
  by (simp add: DocumentFormSetMixin_context_def Let_def map_add_Some_iff)

text \<open>
  Claim C2. When the formset a submission (POST or PUT) constructs fails validation,
  \<open>post\<close> is \<open>formset_invalid\<close> on that formset: the response is the rendered template,
  its context holds the same formset under the key \<open>formset\<close> (the base context keeps
  the entries it is given), the formset is bound to the submitted data and files, and no
  step of the handler is a call of \<open>save()\<close>. The formset is the one constructed in
  the state \<open>s0\<close> in which \<open>ProcessFormSetView.post\<close> runs: after the document
  views have fetched their object list.
\<close>

theorem invalid_post_rerenders_without_saving:
  assumes "method (request (self s)) \<in> {''POST'', ''PUT''}"
    and keeps: "\<forall>v kwargs k x. kwargs k = Some x \<longrightarrow>
                 ContextMixin_get_context_data env v kwargs k = Some x"
    and s0: "s0 = (if is_document cls then fetch_object_list env s else s)"
    and formset: "formset = fst (BaseFormSetMixin_construct_formset cls env s0)"
    and invalid: "\<not> is_valid env formset"
  shows "post cls env s =
           FormSetMixin_formset_invalid cls env
             (log (IsValidCalled formset)
                (snd (BaseFormSetMixin_construct_formset cls env s0))) formset
       \<and> (\<exists>ctx. fst (post cls env s) = TemplateResponse ctx
                \<and> ctx ''formset'' = Some (FormsetVal formset)
                \<and> trace (snd (post cls env s)) =
                    trace (snd (BaseFormSetMixin_construct_formset cls env s0)) @
                      [IsValidCalled formset, Rendered ctx])
       \<and> fs_kwargs formset ''data'' = Some (POST (request (self s)))
       \<and> fs_kwargs formset ''files'' = Some (FILES (request (self s)))
       \<and> (\<forall>f. SaveCalled f \<notin> set (drop (length (trace s)) (trace (snd (post cls env s)))))"
proof -
  let ?c = "BaseFormSetMixin_construct_formset cls env s0"
  let ?ctx = "get_context_data cls env (self s0) [''formset'' \<mapsto> FormsetVal formset]"
  have p: "post cls env s = ProcessFormSetView_post cls env s0"
    by (simp add: post_unfold s0)
  have inv: "\<not> is_valid env (fst ?c)"
    using invalid formset by simp
  have r: "request (self s0) = request (self s)"
    by (simp add: s0 fetch_object_list_request)
  have self_c: "self (snd ?c) = self s0"
    by (rule construct_formset_self)
  have e: "post cls env s =
             (TemplateResponse ?ctx,
              (snd ?c)\<lparr>trace := trace (snd ?c) @ [IsValidCalled formset, Rendered ?ctx]\<rparr>)"
    by (simp add: p post_invalid [OF inv] Let_def formset)
  have 1: "post cls env s =
             FormSetMixin_formset_invalid cls env (log (IsValidCalled formset) (snd ?c)) formset"
    by (simp add: e FormSetMixin_formset_invalid_def log_def Let_def self_c)
  have k: "?ctx ''formset'' = Some (FormsetVal formset)"
    using keeps
    by (simp add: get_context_data_def DocumentFormSetMixin_get_context_data_def
        context_keeps_kwargs)
  have 2: "\<exists>ctx. fst (post cls env s) = TemplateResponse ctx
                \<and> ctx ''formset'' = Some (FormsetVal formset)
                \<and> trace (snd (post cls env s)) =
                    trace (snd ?c) @ [IsValidCalled formset, Rendered ctx]"
    using k by (simp add: e)
  have m: "method (request (self s0)) \<in> {''POST'', ''PUT''}"
    using assms(1) r by simp
  have 3: "fs_kwargs formset ''data'' = Some (POST (request (self s)))"
    and 4: "fs_kwargs formset ''files'' = Some (FILES (request (self s)))"
    using r by (simp_all add: formset construct_formset_fs_kwargs formset_kwargs_submitted [OF m])
  have t0: "trace s0 = trace s @ (if is_document cls
              then [QuerysetFetched, ObjectListAssigned (get_queryset env (self s))] else [])"
    by (simp add: s0 fetch_object_list_explicit)
  have 5: "\<forall>f. SaveCalled f \<notin> set (drop (length (trace s)) (trace (snd (post cls env s))))"
    by (simp add: e construct_formset_trace t0)
  from 1 2 3 4 5 show ?thesis by blast
qed


theorem invalid_post_rerenders_without_saving_witness:
  "method (request (self (sample_state ''POST''))) \<in> {''POST'', ''PUT''}
   \<and> \<not> is_valid (sample_env False)
          (fst (BaseFormSetMixin_construct_formset DocumentFormSetView (sample_env False)
                  (fetch_object_list (sample_env False) (sample_state ''POST''))))
   \<and> (\<exists>ctx. fst (post DocumentFormSetView (sample_env False) (sample_state ''POST'')) =
                TemplateResponse ctx
            \<and> ctx ''formset'' =
                Some (FormsetVal
                  (fst (BaseFormSetMixin_construct_formset DocumentFormSetView
                          (sample_env False)
                          (fetch_object_list (sample_env False) (sample_state ''POST''))))))
   \<and> fs_kwargs (fst (BaseFormSetMixin_construct_formset DocumentFormSetView (sample_env False)
                        (fetch_object_list (sample_env False) (sample_state ''POST''))))
        ''data'' = Some (PDict [(''form-TOTAL_FORMS'', PStr ''1'')])
   \<and> (\<forall>f. SaveCalled f \<notin>
            set (trace (snd (post DocumentFormSetView (sample_env False)
                               (sample_state ''POST'')))))"
proof -
  let ?env = "sample_env False"
  let ?s = "sample_state ''POST''"
  let ?entry = "if is_document DocumentFormSetView then fetch_object_list ?env ?s else ?s"
  have m: "method (request (self ?s)) \<in> {''POST'', ''PUT''}"
    by (simp add: sample_defs)
  have keeps: "\<forall>v kwargs k x. kwargs k = Some x \<longrightarrow>
                 ContextMixin_get_context_data ?env v kwargs k = Some x"
    by (simp add: sample_env_def)
  have invalid: "\<not> is_valid ?env
                   (fst (BaseFormSetMixin_construct_formset DocumentFormSetView ?env ?entry))"
    by (simp add: sample_env_def)
  have t: "trace ?s = []"
    by (simp add: sample_defs)
  have d: "POST (request (self ?s)) = PDict [(''form-TOTAL_FORMS'', PStr ''1'')]"
    by (simp add: sample_defs)
  show ?thesis
    using m invalid
      invalid_post_rerenders_without_saving [OF m keeps refl refl invalid, THEN conjunct2]
    by (auto simp add: t d)
qed

subsection \<open>The redirect target\<close>

lemma fetch_object_list_success_url:
  "FormSetMixin_get_success_url (self (fetch_object_list env s)) =
     FormSetMixin_get_success_url (self s)"
  by (simp add: fetch_object_list_explicit get_success_url_object_list)

lemma formset_valid_response:
  "fst (formset_valid cls env s fs) =
     HttpResponseRedirect (FormSetMixin_get_success_url (self s))"
  by (cases "is_document cls") (simp_all add: formset_valid_document formset_valid_other)

lemma post_valid_response:
  assumes "is_valid env (fst (BaseFormSetMixin_construct_formset cls env s))"
  shows "fst (ProcessFormSetView_post cls env s) =
           HttpResponseRedirect (FormSetMixin_get_success_url (self s))"
  by (simp add: post_valid [OF assms] Let_def formset_valid_response log_def
      construct_formset_self)

text \<open>
  Claim C3 says the redirect target is \<open>success_url\<close> whenever it is set. The method
  tests the truth value of \<open>success_url\<close>, so a view whose \<open>success_url\<close> is set to the
  empty string redirects to the full path of the request instead.
\<close>

theorem success_url_empty_counterexample:
  "success_url ((sample_view ''POST'')\<lparr>success_url := PStr ''''\<rparr>) \<noteq> PNone
   \<and> FormSetMixin_get_success_url ((sample_view ''POST'')\<lparr>success_url := PStr ''''\<rparr>) \<noteq>
       success_url ((sample_view ''POST'')\<lparr>success_url := PStr ''''\<rparr>)
   \<and> FormSetMixin_get_success_url ((sample_view ''POST'')\<lparr>success_url := PStr ''''\<rparr>) =
       PStr ''/articles/?page=2''
   \<and> fst (post FormSetView (sample_env True)
          \<lparr>self = (sample_view ''POST'')\<lparr>success_url := PStr ''''\<rparr>, trace = []\<rparr>) =
       HttpResponseRedirect (PStr ''/articles/?page=2'')"
proof -
  let ?v = "(sample_view ''POST'')\<lparr>success_url := PStr ''''\<rparr>"
  have u: "FormSetMixin_get_success_url ?v = PStr ''/articles/?page=2''"
    by (simp add: FormSetMixin_get_success_url_def sample_defs)
  have v: "is_valid (sample_env True)
             (fst (BaseFormSetMixin_construct_formset FormSetView (sample_env True)
                     \<lparr>self = ?v, trace = []\<rparr>))"
    by (simp add: sample_env_def)
  have p: "fst (post FormSetView (sample_env True) \<lparr>self = ?v, trace = []\<rparr>) =
             HttpResponseRedirect (PStr ''/articles/?page=2'')"
    by (simp add: post_unfold post_valid_response [OF v] u)
  show ?thesis
    using p by (simp add: u)
qed

text \<open>
  Claim C3, amended. For every valid submission, handled by \<open>post\<close> or by \<open>put\<close> in
  any of the view classes, the response is a redirect to \<open>get_success_url()\<close> of the
  view as it was when the request arrived. That target is \<open>success_url\<close> whenever
  \<open>success_url\<close> is true in Python's sense (set to a value that is neither \<open>None\<close> nor
  empty), and the full path of the current request otherwise.
\<close>

theorem valid_submission_redirect_target:
  assumes s0: "s0 = (if is_document cls then fetch_object_list env s else s)"
    and valid: "is_valid env (fst (BaseFormSetMixin_construct_formset cls env s0))"
  shows "fst (post cls env s) = HttpResponseRedirect (FormSetMixin_get_success_url (self s))
       \<and> fst (ProcessFormSetView_put cls env s) =
           HttpResponseRedirect (FormSetMixin_get_success_url (self s))
       \<and> (truthy (success_url (self s)) \<longrightarrow>
            FormSetMixin_get_success_url (self s) = success_url (self s))
       \<and> (\<not> truthy (success_url (self s)) \<longrightarrow>
            FormSetMixin_get_success_url (self s) = PStr (full_path (request (self s))))"
proof -
  have u: "FormSetMixin_get_success_url (self s0) = FormSetMixin_get_success_url (self s)"
    by (simp add: s0 fetch_object_list_success_url)
  have "post cls env s = ProcessFormSetView_post cls env s0"
    by (simp add: post_unfold s0)
  then have p: "fst (post cls env s) =
                  HttpResponseRedirect (FormSetMixin_get_success_url (self s))"
    by (simp add: post_valid_response [OF valid] u)
  then show ?thesis
    by (simp add: ProcessFormSetView_put_def FormSetMixin_get_success_url_def)
qed

theorem valid_submission_redirect_target_witness:
  "is_valid (sample_env True)
     (fst (BaseFormSetMixin_construct_formset DocumentFormSetView (sample_env True)
             (fetch_object_list (sample_env True)
                \<lparr>self = (sample_view ''POST'')\<lparr>success_url := PStr ''/done/''\<rparr>, trace = []\<rparr>)))
   \<and> truthy (success_url ((sample_view ''POST'')\<lparr>success_url := PStr ''/done/''\<rparr>))
   \<and> fst (post DocumentFormSetView (sample_env True)
          \<lparr>self = (sample_view ''POST'')\<lparr>success_url := PStr ''/done/''\<rparr>, trace = []\<rparr>) =
       HttpResponseRedirect (PStr ''/done/'')
   \<and> \<not> truthy (success_url (sample_view ''POST''))
   \<and> fst (post DocumentFormSetView (sample_env True) (sample_state ''POST'')) =
       HttpResponseRedirect (PStr ''/articles/?page=2'')"
proof -
  let ?env = "sample_env True"
  let ?a = "\<lparr>self = (sample_view ''POST'')\<lparr>success_url := PStr ''/done/''\<rparr>, trace = []\<rparr>"
  let ?b = "sample_state ''POST''"
  have va: "is_valid ?env (fst (BaseFormSetMixin_construct_formset DocumentFormSetView ?env
              (if is_document DocumentFormSetView then fetch_object_list ?env ?a else ?a)))"
    by (simp add: sample_env_def)
  have vb: "is_valid ?env (fst (BaseFormSetMixin_construct_formset DocumentFormSetView ?env
              (if is_document DocumentFormSetView then fetch_object_list ?env ?b else ?b)))"
    by (simp add: sample_env_def)
  have ta: "truthy (success_url (self ?a))" "success_url (self ?a) = PStr ''/done/''"
    by (simp_all add: sample_defs)
  have tb: "\<not> truthy (success_url (self ?b))"
    "PStr (full_path (request (self ?b))) = PStr ''/articles/?page=2''"
    "self ?b = sample_view ''POST''"
    by (simp_all add: sample_defs)
  show ?thesis
    using va ta tb
      valid_submission_redirect_target [OF refl va]
      valid_submission_redirect_target [OF refl vb]
    by simp
qed

subsection \<open>Bound and unbound formsets\<close>

lemma factory_kwargs_tuning:
  "get_factory_kwargs cls v ''extra'' = Some (extra v)"
  "get_factory_kwargs cls v ''max_num'' = Some (max_num v)"
  "get_factory_kwargs cls v ''can_order'' = Some (can_order v)"
  "get_factory_kwargs cls v ''can_delete'' = Some (can_delete v)"
  by (simp_all add: get_factory_kwargs_def DocumentFormSetMixin_get_factory_kwargs_def
      BaseFormSetMixin_get_factory_kwargs_def Let_def)

lemma factory_kwargs_document:
  "is_document cls \<Longrightarrow> get_factory_kwargs cls v ''exclude'' = Some (exclude v)"
  "is_document cls \<Longrightarrow> get_factory_kwargs cls v ''fields'' = Some (fields' v)"
  "is_document cls \<Longrightarrow>
     get_factory_kwargs cls v ''formfield_callback'' = Some (formfield_callback v)"
  by (simp_all add: get_factory_kwargs_def DocumentFormSetMixin_get_factory_kwargs_def
      BaseFormSetMixin_get_factory_kwargs_def Let_def)

lemma get_formset_kwargs_explicit:
  "fst (get_formset_kwargs cls env s) =
     (if is_document cls
      then (BaseFormSetMixin_get_formset_kwargs (self s))
             (''queryset'' \<mapsto> get_queryset env (self s))
      else BaseFormSetMixin_get_formset_kwargs (self s))"
  by (simp add: get_formset_kwargs_def DocumentFormSetMixin_get_formset_kwargs_def Let_def)

lemma fetch_object_list_config:
  "extra (self (fetch_object_list env s)) = extra (self s)"
  "max_num (self (fetch_object_list env s)) = max_num (self s)"
  "initial (self (fetch_object_list env s)) = initial (self s)"
  by (simp_all add: fetch_object_list_explicit)

text \<open>
  Claim C4. The keyword arguments \<open>get_formset_kwargs\<close> builds for the formset hold
  \<open>data\<close> and \<open>files\<close> exactly when the request method is POST or PUT, and then they are
  \<open>request.POST\<close> and \<open>request.FILES\<close>. For a GET request the formset that \<open>get\<close>
  constructs and renders has neither \<open>data\<close> nor \<open>files\<close> (it is unbound), and the
  factory that made its class was given the view's \<open>extra\<close> and \<open>max_num\<close>.
\<close>

theorem formset_bound_iff_submitted:
  assumes kwargs: "kwargs = fst (get_formset_kwargs cls env s)"
    and s0: "s0 = (if is_document cls then fetch_object_list env s else s)"
    and formset: "formset = fst (BaseFormSetMixin_construct_formset cls env s0)"
  shows "((''data'' \<in> dom kwargs \<and> ''files'' \<in> dom kwargs) =
            (method (request (self s)) \<in> {''POST'', ''PUT''}))
       \<and> ((''data'' \<in> dom kwargs \<or> ''files'' \<in> dom kwargs) =
            (method (request (self s)) \<in> {''POST'', ''PUT''}))
       \<and> (method (request (self s)) \<in> {''POST'', ''PUT''} \<longrightarrow>
            kwargs ''data'' = Some (POST (request (self s)))
            \<and> kwargs ''files'' = Some (FILES (request (self s))))
       \<and> (method (request (self s)) = ''GET'' \<longrightarrow>
            fs_kwargs formset ''data'' = None
            \<and> fs_kwargs formset ''files'' = None
            \<and> fc_kwargs (fs_cls formset) ''extra'' = Some (extra (self s))
            \<and> fc_kwargs (fs_cls formset) ''max_num'' = Some (max_num (self s))
            \<and> fst (get cls env s) =
                TemplateResponse
                  (get_context_data cls env (self s0) [''formset'' \<mapsto> FormsetVal formset])
            \<and> FormsetConstructed formset \<in> set (trace (snd (get cls env s))))"
proof -
  let ?sub = "method (request (self s)) \<in> {''POST'', ''PUT''}"
  have r: "request (self s0) = request (self s)"
    by (simp add: s0 fetch_object_list_request)
  have k1: "?sub \<Longrightarrow> kwargs ''data'' = Some (POST (request (self s)))
                    \<and> kwargs ''files'' = Some (FILES (request (self s)))"
    by (simp add: kwargs get_formset_kwargs_explicit formset_kwargs_submitted)
  have k2: "\<not> ?sub \<Longrightarrow> kwargs ''data'' = None \<and> kwargs ''files'' = None"
    by (simp add: kwargs get_formset_kwargs_explicit formset_kwargs_not_submitted)
  have a: "(''data'' \<in> dom kwargs \<and> ''files'' \<in> dom kwargs) = ?sub"
    using k1 k2 by (cases ?sub) (simp_all add: dom_def)
  have b: "(''data'' \<in> dom kwargs \<or> ''files'' \<in> dom kwargs) = ?sub"
    using k1 k2 by (cases ?sub) (simp_all add: dom_def)
  have g: "fs_kwargs formset ''data'' = None \<and> fs_kwargs formset ''files'' = None"
    if "method (request (self s)) = ''GET''"
  proof -
    have "method (request (self s0)) \<notin> {''POST'', ''PUT''}"
      using that r by simp
    then show ?thesis
      by (simp add: formset construct_formset_fs_kwargs formset_kwargs_not_submitted)
  qed
  have f: "fc_kwargs (fs_cls formset) ''extra'' = Some (extra (self s))
         \<and> fc_kwargs (fs_cls formset) ''max_num'' = Some (max_num (self s))"
    by (simp add: formset construct_formset_fs_cls factory_kwargs_tuning s0
        fetch_object_list_config)
  have e: "get cls env s = ProcessFormSetView_get cls env s0"
    by (simp add: get_unfold s0)
  have h: "fst (get cls env s) =
             TemplateResponse
               (get_context_data cls env (self s0) [''formset'' \<mapsto> FormsetVal formset])"
    by (simp add: e ProcessFormSetView_get_explicit Let_def formset)
  have t: "FormsetConstructed formset \<in> set (trace (snd (get cls env s)))"
    by (simp add: e ProcessFormSetView_get_explicit Let_def formset construct_formset_trace)
  from a b k1 g f h t show ?thesis by blast
qed

theorem formset_bound_iff_submitted_witness:
  "method (request (self (sample_state ''GET''))) = ''GET''
   \<and> dom (fst (get_formset_kwargs DocumentFormSetView (sample_env True) (sample_state ''GET'')))
       = {''queryset''}
   \<and> fs_kwargs (fst (BaseFormSetMixin_construct_formset DocumentFormSetView (sample_env True)
                        (fetch_object_list (sample_env True) (sample_state ''GET''))))
        ''data'' = None
   \<and> fc_kwargs (fs_cls (fst (BaseFormSetMixin_construct_formset DocumentFormSetView
                                 (sample_env True)
                                 (fetch_object_list (sample_env True) (sample_state ''GET'')))))
        ''extra'' = Some (PInt 2)
   \<and> method (request (self (sample_state ''PUT''))) \<in> {''POST'', ''PUT''}
   \<and> fst (get_formset_kwargs FormSetView (sample_env True) (sample_state ''PUT'')) ''data'' =
        Some (PDict [(''form-TOTAL_FORMS'', PStr ''1'')])
   \<and> fst (get_formset_kwargs FormSetView (sample_env True) (sample_state ''PUT'')) ''files'' =
        Some (PDict [])"
proof -
  let ?env = "sample_env True"
  have g: "method (request (self (sample_state ''GET''))) = ''GET''"
    and p: "method (request (self (sample_state ''PUT''))) \<in> {''POST'', ''PUT''}"
    and x: "extra (self (sample_state ''GET'')) = PInt 2"
    and d: "POST (request (self (sample_state ''PUT''))) =
              PDict [(''form-TOTAL_FORMS'', PStr ''1'')]"
           "FILES (request (self (sample_state ''PUT''))) = PDict []"
    by (simp_all add: sample_defs)
  have k: "dom (fst (get_formset_kwargs DocumentFormSetView ?env (sample_state ''GET'')))
             = {''queryset''}"
    using g by (simp add: get_formset_kwargs_explicit formset_kwargs_not_submitted)
  show ?thesis
    using g p k
      formset_bound_iff_submitted
        [OF refl refl refl, of DocumentFormSetView ?env "sample_state ''GET''"]
      formset_bound_iff_submitted
        [OF refl refl refl, of FormSetView ?env "sample_state ''PUT''"]
    by (simp add: x d)
qed

subsection \<open>PUT is POST\<close>




lemma get_success_url_set_method:
  "FormSetMixin_get_success_url (self (set_method m u)) = FormSetMixin_get_success_url (self u)"
  by (simp add: FormSetMixin_get_success_url_def set_method_def)







subsection \<open>The render context of a document view\<close>

lemma context_dom:
  "dom (DocumentFormSetMixin_context env v kwargs) =
     dom kwargs \<union>
     (if truthy (object_list v)
      then {''object_list''} \<union>
           (case get_context_object_name env v (object_list v) of
              None \<Rightarrow> {}
            | Some name \<Rightarrow> if name \<noteq> [] then {name} else {})
      else {})"
  by (auto simp add: DocumentFormSetMixin_context_def Let_def split: option.splits)

lemma context_object_list:
  "truthy (object_list v) \<Longrightarrow> kwargs ''object_list'' = None \<Longrightarrow>
     DocumentFormSetMixin_context env v kwargs ''object_list'' = Some (Val (object_list v))"
  by (simp add: DocumentFormSetMixin_context_def Let_def map_add_def split: option.splits)

lemma context_named:
  "truthy (object_list v) \<Longrightarrow> get_context_object_name env v (object_list v) = Some name \<Longrightarrow>
   name \<noteq> [] \<Longrightarrow> kwargs name = None \<Longrightarrow>
     DocumentFormSetMixin_context env v kwargs name = Some (Val (object_list v))"
  by (simp add: DocumentFormSetMixin_context_def Let_def map_add_def)

text \<open>
  Claim C6 says both the key \<open>object_list\<close> and a model-specific key are populated
  whenever a document list exists. The method adds the model-specific key only under
  its guard \<open>if context_object_name:\<close>: with a non-empty list for which
  \<open>get_context_object_name\<close> returns \<open>None\<close>, the context holds \<open>object_list\<close> alone.
\<close>

theorem model_key_missing_counterexample:
  "truthy (object_list ((sample_view ''GET'')\<lparr>object_list := PList [PObj ''article1'']\<rparr>))
   \<and> get_context_object_name sample_env_unnamed
         ((sample_view ''GET'')\<lparr>object_list := PList [PObj ''article1'']\<rparr>)
         (PList [PObj ''article1'']) = None
   \<and> dom (DocumentFormSetMixin_get_context_data sample_env_unnamed
              ((sample_view ''GET'')\<lparr>object_list := PList [PObj ''article1'']\<rparr>) Map.empty) =
       {''object_list''}"
proof -
  let ?v = "(sample_view ''GET'')\<lparr>object_list := PList [PObj ''article1'']\<rparr>"
  have n: "get_context_object_name sample_env_unnamed ?v (PList [PObj ''article1'']) = None"
    by (simp add: sample_env_unnamed_def)
  have c: "ContextMixin_get_context_data sample_env_unnamed ?v = (\<lambda>kwargs. kwargs)"
    by (simp add: sample_env_unnamed_def sample_env_def)
  show ?thesis
    by (simp add: DocumentFormSetMixin_get_context_data_def c context_dom n)
qed

text \<open>
  Claim C6, amended. When the candidate document list is true in Python's sense
  (non-empty), \<open>get_context_data\<close> hands to the base method a context that holds the
  list under \<open>object_list\<close> and, when \<open>get_context_object_name\<close> returns a non-empty
  name, under that name too; the keyword arguments of the caller are merged afterwards,
  so every entry of the caller is kept and wins over an injected one. The context has
  no other keys.
\<close>

theorem context_injects_before_kwargs:
  assumes t: "truthy (object_list v)"
    and ctx: "context = DocumentFormSetMixin_context env v kwargs"
  shows "DocumentFormSetMixin_get_context_data env v kwargs =
           ContextMixin_get_context_data env v context
       \<and> (\<forall>k x. kwargs k = Some x \<longrightarrow> context k = Some x)
       \<and> (kwargs ''object_list'' = None \<longrightarrow>
            context ''object_list'' = Some (Val (object_list v)))
       \<and> (\<forall>name. get_context_object_name env v (object_list v) = Some name \<and> name \<noteq> []
              \<and> kwargs name = None \<longrightarrow> context name = Some (Val (object_list v)))
       \<and> dom context =
            dom kwargs \<union> {''object_list''} \<union>
            (case get_context_object_name env v (object_list v) of
               None \<Rightarrow> {}
             | Some name \<Rightarrow> if name \<noteq> [] then {name} else {})"
proof (intro conjI)
  show "DocumentFormSetMixin_get_context_data env v kwargs =
          ContextMixin_get_context_data env v context"
    by (simp add: DocumentFormSetMixin_get_context_data_def ctx)
  show "\<forall>k x. kwargs k = Some x \<longrightarrow> context k = Some x"
    by (simp add: ctx context_keeps_kwargs)
  show "kwargs ''object_list'' = None \<longrightarrow>
          context ''object_list'' = Some (Val (object_list v))"
    by (simp add: ctx context_object_list [OF t])
  show "\<forall>name. get_context_object_name env v (object_list v) = Some name \<and> name \<noteq> []
            \<and> kwargs name = None \<longrightarrow> context name = Some (Val (object_list v))"
    by (simp add: ctx context_named [OF t])
  show "dom context =
          dom kwargs \<union> {''object_list''} \<union>
          (case get_context_object_name env v (object_list v) of
             None \<Rightarrow> {}
           | Some name \<Rightarrow> if name \<noteq> [] then {name} else {})"
    using t by (auto simp add: ctx context_dom)
qed

theorem context_injects_before_kwargs_witness:
  "truthy (object_list ((sample_view ''GET'')\<lparr>object_list := PList [PObj ''article1'']\<rparr>))
   \<and> DocumentFormSetMixin_context (sample_env True)
         ((sample_view ''GET'')\<lparr>object_list := PList [PObj ''article1'']\<rparr>)
         [''page'' \<mapsto> Val (PInt 2)] ''page'' = Some (Val (PInt 2))
   \<and> DocumentFormSetMixin_context (sample_env True)
         ((sample_view ''GET'')\<lparr>object_list := PList [PObj ''article1'']\<rparr>)
         [''page'' \<mapsto> Val (PInt 2)] ''object_list'' = Some (Val (PList [PObj ''article1'']))
   \<and> DocumentFormSetMixin_context (sample_env True)
         ((sample_view ''GET'')\<lparr>object_list := PList [PObj ''article1'']\<rparr>)
         [''page'' \<mapsto> Val (PInt 2)] ''article_list'' = Some (Val (PList [PObj ''article1'']))
   \<and> DocumentFormSetMixin_context (sample_env True)
         ((sample_view ''GET'')\<lparr>object_list := PList [PObj ''article1'']\<rparr>)
         [''object_list'' \<mapsto> Val PNone] ''object_list'' = Some (Val PNone)"
proof -
  let ?v = "(sample_view ''GET'')\<lparr>object_list := PList [PObj ''article1'']\<rparr>"
  have t: "truthy (object_list ?v)"
    by simp
  have n: "get_context_object_name (sample_env True) ?v (object_list ?v) = Some ''article_list''"
    by (simp add: sample_env_def)
  show ?thesis
    using t n
      context_injects_before_kwargs [OF t refl, of "sample_env True" "[''page'' \<mapsto> Val (PInt 2)]"]
      context_injects_before_kwargs [OF t refl, of "sample_env True" "[''object_list'' \<mapsto> Val PNone]"]
    by simp
qed

text \<open>
  Claim C10. When the candidate document list is empty or otherwise false in Python's
  sense (\<open>None\<close> included), \<open>get_context_data\<close> injects nothing: the context it hands
  to the base method is exactly the keyword arguments of the caller, so it holds
  \<open>object_list\<close> or any other key only if the caller supplied it.
\<close>

theorem falsy_object_list_injects_nothing:
  assumes "\<not> truthy (object_list v)"
  shows "DocumentFormSetMixin_context env v kwargs = kwargs
       \<and> DocumentFormSetMixin_get_context_data env v kwargs =
           ContextMixin_get_context_data env v kwargs
       \<and> (''object_list'' \<in> dom (DocumentFormSetMixin_context env v kwargs)) =
           (''object_list'' \<in> dom kwargs)
       \<and> dom (DocumentFormSetMixin_context env v kwargs) = dom kwargs"
  using assms
  by (simp add: DocumentFormSetMixin_get_context_data_def DocumentFormSetMixin_context_def
      Let_def)

theorem falsy_object_list_injects_nothing_witness:
  "\<not> truthy (object_list ((sample_view ''GET'')\<lparr>object_list := PList []\<rparr>))
   \<and> DocumentFormSetMixin_context (sample_env True)
         ((sample_view ''GET'')\<lparr>object_list := PList []\<rparr>) Map.empty = Map.empty
   \<and> dom (DocumentFormSetMixin_get_context_data (sample_env True)
              ((sample_view ''GET'')\<lparr>object_list := PList []\<rparr>)
              [''formset'' \<mapsto> FormsetVal sample_formset]) = {''formset''}
   \<and> \<not> truthy (object_list (sample_view ''GET''))
   \<and> DocumentFormSetMixin_context (sample_env True) (sample_view ''GET'') Map.empty = Map.empty"
proof -
  let ?v = "(sample_view ''GET'')\<lparr>object_list := PList []\<rparr>"
  have a: "\<not> truthy (object_list ?v)"
    by simp
  have b: "\<not> truthy (object_list (sample_view ''GET''))"
    by (simp add: sample_defs)
  have c: "ContextMixin_get_context_data (sample_env True) ?v
             [''formset'' \<mapsto> FormsetVal sample_formset] =
           [''formset'' \<mapsto> FormsetVal sample_formset]"
    by (simp add: sample_env_def)
  show ?thesis
    using a b
      falsy_object_list_injects_nothing [OF a, of "sample_env True" Map.empty]
      falsy_object_list_injects_nothing
        [OF a, of "sample_env True" "[''formset'' \<mapsto> FormsetVal sample_formset]"]
      falsy_object_list_injects_nothing [OF b, of "sample_env True" Map.empty]
    by (simp add: c)
qed

subsection \<open>Configuration reaches the factory unchanged\<close>

lemma get_formset_explicit:
  "get_formset cls s =
     (\<lparr>fc_args = (if is_document cls then [document (self s)]
                  else [document (self s), form_class (self s)]),
       fc_kwargs = get_factory_kwargs cls (self s)\<rparr>,
      s\<lparr>trace := trace s @
          [FactoryCalled
             \<lparr>fc_args = (if is_document cls then [document (self s)]
                          else [document (self s), form_class (self s)]),
               fc_kwargs = get_factory_kwargs cls (self s)\<rparr>]\<rparr>)"
  by (simp add: get_formset_def BaseFormSetMixin_get_formset_def
      DocumentFormSetMixin_get_formset_def BaseFormSetMixin_get_form_class_def log_def Let_def)

lemma ProcessFormSetView_get_self:
  "self (snd (ProcessFormSetView_get cls env s)) = self s"
  by (simp add: ProcessFormSetView_get_explicit Let_def construct_formset_self)

lemma ProcessFormSetView_post_self:
  "\<exists>ol. self (snd (ProcessFormSetView_post cls env s)) = (self s)\<lparr>object_list := ol\<rparr>"
proof (cases "is_valid env (fst (BaseFormSetMixin_construct_formset cls env s))")
  case True
  show ?thesis
  proof (cases "is_document cls")
    case True
    with \<open>is_valid env _\<close> show ?thesis
      by (simp add: post_valid Let_def formset_valid_document log_def construct_formset_self)
        blast
  next
    case False
    have "self (snd (ProcessFormSetView_post cls env s)) =
            (self s)\<lparr>object_list := object_list (self s)\<rparr>"
      using False \<open>is_valid env _\<close>
      by (simp add: post_valid Let_def formset_valid_other log_def construct_formset_self)
    then show ?thesis ..
  qed
next
  case False
  have "self (snd (ProcessFormSetView_post cls env s)) =
          (self s)\<lparr>object_list := object_list (self s)\<rparr>"
    by (simp add: post_invalid [OF False] Let_def construct_formset_self)
  then show ?thesis ..
qed

lemma fetch_object_list_self:
  "self (fetch_object_list env s) = (self s)\<lparr>object_list := get_queryset env (self s)\<rparr>"
  by (simp add: fetch_object_list_explicit)

lemma get_self:
  "\<exists>ol. self (snd (get cls env s)) = (self s)\<lparr>object_list := ol\<rparr>"
proof (cases "is_document cls")
  case True
  then have "self (snd (get cls env s)) = (self s)\<lparr>object_list := get_queryset env (self s)\<rparr>"
    by (simp add: get_unfold ProcessFormSetView_get_self fetch_object_list_self)
  then show ?thesis ..
next
  case False
  then have "self (snd (get cls env s)) = (self s)\<lparr>object_list := object_list (self s)\<rparr>"
    by (simp add: get_unfold ProcessFormSetView_get_self)
  then show ?thesis ..
qed

lemma post_self:
  "\<exists>ol. self (snd (post cls env s)) = (self s)\<lparr>object_list := ol\<rparr>"
proof (cases "is_document cls")
  case True
  obtain ol where
    "self (snd (ProcessFormSetView_post cls env (fetch_object_list env s))) =
       (self (fetch_object_list env s))\<lparr>object_list := ol\<rparr>"
    using ProcessFormSetView_post_self by blast
  with True have "self (snd (post cls env s)) = (self s)\<lparr>object_list := ol\<rparr>"
    by (simp add: post_unfold fetch_object_list_self)
  then show ?thesis ..
next
  case False
  then show ?thesis
    using ProcessFormSetView_post_self [of cls env s] by (simp add: post_unfold)
qed

text \<open>
  Claim C7. The keyword arguments for the formset factory hold the view's \<open>extra\<close>,
  \<open>max_num\<close>, \<open>can_order\<close> and \<open>can_delete\<close> under these names and, in a document view,
  \<open>exclude\<close>, \<open>fields\<close> and \<open>formfield_callback\<close> as well, each with the value the view
  has; the factory is called with exactly these keyword arguments; and no handler
  changes an attribute of the view other than \<open>object_list\<close>.
\<close>

theorem configuration_passed_unchanged:
  "get_factory_kwargs cls v ''extra'' = Some (extra v)
   \<and> get_factory_kwargs cls v ''max_num'' = Some (max_num v)
   \<and> get_factory_kwargs cls v ''can_order'' = Some (can_order v)
   \<and> get_factory_kwargs cls v ''can_delete'' = Some (can_delete v)
   \<and> (is_document cls \<longrightarrow>
        get_factory_kwargs cls v ''exclude'' = Some (exclude v)
        \<and> get_factory_kwargs cls v ''fields'' = Some (fields' v)
        \<and> get_factory_kwargs cls v ''formfield_callback'' = Some (formfield_callback v))
   \<and> fc_kwargs (fst (get_formset cls s)) = get_factory_kwargs cls (self s)
   \<and> fc_kwargs (fs_cls (fst (BaseFormSetMixin_construct_formset cls env s))) =
       get_factory_kwargs cls (self s)
   \<and> self (snd (get_formset cls s)) = self s
   \<and> self (snd (BaseFormSetMixin_construct_formset cls env s)) = self s
   \<and> (\<exists>ol. self (snd (get cls env s)) = (self s)\<lparr>object_list := ol\<rparr>)
   \<and> (\<exists>ol. self (snd (post cls env s)) = (self s)\<lparr>object_list := ol\<rparr>)
   \<and> (\<exists>ol. self (snd (ProcessFormSetView_put cls env s)) = (self s)\<lparr>object_list := ol\<rparr>)"
  by (simp add: factory_kwargs_tuning factory_kwargs_document get_formset_explicit
      construct_formset_fs_cls construct_formset_self get_self post_self
      ProcessFormSetView_put_def)

theorem configuration_passed_unchanged_witness:
  "is_document DocumentFormSetView
   \<and> get_factory_kwargs DocumentFormSetView
        ((sample_view ''GET'')\<lparr>extra := PInt 3, exclude := PList [PStr ''slug'']\<rparr>) ''extra'' =
       Some (PInt 3)
   \<and> get_factory_kwargs DocumentFormSetView
        ((sample_view ''GET'')\<lparr>extra := PInt 3, exclude := PList [PStr ''slug'']\<rparr>) ''exclude'' =
       Some (PList [PStr ''slug''])
   \<and> get_factory_kwargs DocumentFormSetView
        ((sample_view ''GET'')\<lparr>extra := PInt 3, exclude := PList [PStr ''slug'']\<rparr>) ''max_num'' =
       Some PNone"
proof -
  let ?v = "(sample_view ''GET'')\<lparr>extra := PInt 3, exclude := PList [PStr ''slug'']\<rparr>"
  have x: "extra ?v = PInt 3" "exclude ?v = PList [PStr ''slug'']" "max_num ?v = PNone"
    by (simp_all add: sample_defs)
  show ?thesis
    using configuration_passed_unchanged [of DocumentFormSetView ?v]
    by (simp add: x)
qed

subsection \<open>The document views fetch the object list first\<close>

text \<open>
  Claim C8. In a document formset view, \<open>get\<close> and \<open>post\<close> first call
  \<open>get_queryset()\<close> and assign its result to \<open>self.object_list\<close>, and only then run the
  handler of \<open>ProcessFormSetView\<close> on the updated view: the first two steps of either
  handler are the fetch and the assignment, the factory call and the construction of the
  formset come after them, and after a GET \<open>object_list\<close> still is the fetched result.
\<close>

theorem object_list_fetched_first:
  assumes doc: "is_document cls"
    and q: "queryset = get_queryset env (self s)"
    and s0: "s0 = fetch_object_list env s"
    and fs: "formset = fst (BaseFormSetMixin_construct_formset cls env s0)"
  shows "get cls env s = ProcessFormSetView_get cls env s0
       \<and> post cls env s = ProcessFormSetView_post cls env s0
       \<and> object_list (self s0) = queryset
       \<and> trace s0 = trace s @ [QuerysetFetched, ObjectListAssigned queryset]
       \<and> drop (length (trace s)) (trace (snd (get cls env s))) =
           [QuerysetFetched, ObjectListAssigned queryset, FactoryCalled (fs_cls formset),
            QuerysetFetched, FormsetConstructed formset,
            Rendered (get_context_data cls env (self s0)
                        [''formset'' \<mapsto> FormsetVal formset])]
       \<and> take 5 (drop (length (trace s)) (trace (snd (post cls env s)))) =
           [QuerysetFetched, ObjectListAssigned queryset, FactoryCalled (fs_cls formset),
            QuerysetFetched, FormsetConstructed formset]
       \<and> object_list (self (snd (get cls env s))) = queryset"
proof -
  let ?c = "BaseFormSetMixin_construct_formset cls env s0"
  have g: "get cls env s = ProcessFormSetView_get cls env s0"
    using doc by (simp add: get_unfold s0)
  have p: "post cls env s = ProcessFormSetView_post cls env s0"
    using doc by (simp add: post_unfold s0)
  have o: "object_list (self s0) = queryset"
    by (simp add: s0 q fetch_object_list_explicit)
  have t0: "trace s0 = trace s @ [QuerysetFetched, ObjectListAssigned queryset]"
    by (simp add: s0 q fetch_object_list_explicit)
  have tc: "trace (snd ?c) =
              trace s @ [QuerysetFetched, ObjectListAssigned queryset,
                         FactoryCalled (fs_cls formset), QuerysetFetched,
                         FormsetConstructed formset]"
    using doc by (simp add: construct_formset_trace t0 fs)
  have tg: "drop (length (trace s)) (trace (snd (get cls env s))) =
              [QuerysetFetched, ObjectListAssigned queryset, FactoryCalled (fs_cls formset),
               QuerysetFetched, FormsetConstructed formset,
               Rendered (get_context_data cls env (self s0)
                           [''formset'' \<mapsto> FormsetVal formset])]"
    by (simp add: g ProcessFormSetView_get_explicit Let_def tc fs)
  have tp: "\<exists>rest. trace (snd (ProcessFormSetView_post cls env s0)) = trace (snd ?c) @ rest"
  proof (cases "is_valid env (fst ?c)")
    case True
    then show ?thesis
      using doc by (simp add: post_valid Let_def formset_valid_document log_def)
  next
    case False
    then show ?thesis
      by (simp add: post_invalid Let_def)
  qed
  then obtain rest where "trace (snd (post cls env s)) = trace (snd ?c) @ rest"
    using p by auto
  then have tp5: "take 5 (drop (length (trace s)) (trace (snd (post cls env s)))) =
              [QuerysetFetched, ObjectListAssigned queryset, FactoryCalled (fs_cls formset),
               QuerysetFetched, FormsetConstructed formset]"
    by (simp add: tc)
  have og: "object_list (self (snd (get cls env s))) = queryset"
    by (simp add: g ProcessFormSetView_get_self o)
  from g p o t0 tg tp5 og show ?thesis by blast
qed

theorem object_list_fetched_first_witness:
  "is_document DocumentFormSetView
   \<and> take 2 (trace (snd (get DocumentFormSetView (sample_env True) (sample_state ''GET'')))) =
       [QuerysetFetched, ObjectListAssigned (PList [PObj ''article1'', PObj ''article2''])]
   \<and> take 2 (trace (snd (post DocumentFormSetView (sample_env True) (sample_state ''POST'')))) =
       [QuerysetFetched, ObjectListAssigned (PList [PObj ''article1'', PObj ''article2''])]
   \<and> object_list (self (snd (get DocumentFormSetView (sample_env True) (sample_state ''GET''))))
       = PList [PObj ''article1'', PObj ''article2'']"
proof -
  let ?env = "sample_env True"
  have d: "is_document DocumentFormSetView"
    by simp
  have qg: "get_queryset ?env (self (sample_state ''GET'')) =
              PList [PObj ''article1'', PObj ''article2'']"
    and qp: "get_queryset ?env (self (sample_state ''POST'')) =
              PList [PObj ''article1'', PObj ''article2'']"
    by (simp_all add: sample_env_def)
  have t: "trace (sample_state ''GET'') = []" "trace (sample_state ''POST'') = []"
    by (simp_all add: sample_defs)
  note g = object_list_fetched_first
             [OF d refl refl refl, of ?env "sample_state ''GET''", THEN conjunct2, THEN conjunct2]
  note p = object_list_fetched_first
             [OF d refl refl refl, of ?env "sample_state ''POST''", THEN conjunct2, THEN conjunct2]
  have 1: "take 2 (trace (snd (get DocumentFormSetView ?env (sample_state ''GET'')))) =
             [QuerysetFetched, ObjectListAssigned (PList [PObj ''article1'', PObj ''article2''])]"
    using g by (simp add: t qg)
  have "take 2 (take 5 (trace (snd (post DocumentFormSetView ?env (sample_state ''POST''))))) =
             [QuerysetFetched, ObjectListAssigned (PList [PObj ''article1'', PObj ''article2''])]"
    using p by (simp add: t qp)
  then have 2: "take 2 (trace (snd (post DocumentFormSetView ?env (sample_state ''POST'')))) =
             [QuerysetFetched, ObjectListAssigned (PList [PObj ''article1'', PObj ''article2''])]"
    by simp
  have 3: "object_list (self (snd (get DocumentFormSetView ?env (sample_state ''GET'')))) =
             PList [PObj ''article1'', PObj ''article2'']"
    using g by (simp add: qg)
  from d 1 2 3 show ?thesis by blast
qed

subsection \<open>Repeated GET requests\<close>

lemma construct_formset_object_list:
  assumes q: "\<forall>v ol. get_queryset env (v\<lparr>object_list := ol\<rparr>) = get_queryset env v"
    and t: "self t' = (self t)\<lparr>object_list := x\<rparr>"
  shows "fst (BaseFormSetMixin_construct_formset cls env t') =
         fst (BaseFormSetMixin_construct_formset cls env t)"
proof -
  have f: "get_factory_kwargs cls ((self t)\<lparr>object_list := x\<rparr>) =
           get_factory_kwargs cls (self t)"
    by (simp add: get_factory_kwargs_def DocumentFormSetMixin_get_factory_kwargs_def
        BaseFormSetMixin_get_factory_kwargs_def BaseFormSetMixin_get_formset_class_def
        BaseFormSetMixin_get_form_class_def Let_def)
  have k: "BaseFormSetMixin_get_formset_kwargs ((self t)\<lparr>object_list := x\<rparr>) =
           BaseFormSetMixin_get_formset_kwargs (self t)"
    by (simp add: BaseFormSetMixin_get_formset_kwargs_def Let_def)
  show ?thesis
    using q by (simp add: construct_formset_fst t f k)
qed

lemma ProcessFormSetView_get_same_self:
  assumes "self t' = self t"
  shows "fst (ProcessFormSetView_get cls env t') = fst (ProcessFormSetView_get cls env t)
       \<and> drop (length (trace t')) (trace (snd (ProcessFormSetView_get cls env t'))) =
           drop (length (trace t)) (trace (snd (ProcessFormSetView_get cls env t)))"
  using assms
  by (simp add: ProcessFormSetView_get_explicit Let_def construct_formset_trace
      construct_formset_fst)

lemma get_steps_split:
  "drop (length (trace s)) (trace (snd (get cls env s))) =
     drop (length (trace s))
       (trace (if is_document cls then fetch_object_list env s else s)) @
     drop (length (trace (if is_document cls then fetch_object_list env s else s)))
       (trace (snd (ProcessFormSetView_get cls env
                      (if is_document cls then fetch_object_list env s else s))))"
  by (cases "is_document cls")
    (simp_all add: get_unfold ProcessFormSetView_get_explicit Let_def construct_formset_trace
      fetch_object_list_explicit)

lemma get_response:
  "fst (get cls env s) =
     TemplateResponse
       (get_context_data cls env
          (self (if is_document cls then fetch_object_list env s else s))
          [''formset'' \<mapsto> FormsetVal
             (fst (BaseFormSetMixin_construct_formset cls env
                     (if is_document cls then fetch_object_list env s else s)))])"
  by (simp add: get_unfold ProcessFormSetView_get_explicit Let_def)

lemma get_steps:
  "drop (length (trace s)) (trace (snd (get cls env s))) =
     (if is_document cls
      then [QuerysetFetched, ObjectListAssigned (get_queryset env (self s))] else []) @
     FactoryCalled
       (fs_cls (fst (BaseFormSetMixin_construct_formset cls env
                       (if is_document cls then fetch_object_list env s else s)))) #
     (if is_document cls then [QuerysetFetched] else []) @
     [FormsetConstructed
        (fst (BaseFormSetMixin_construct_formset cls env
                (if is_document cls then fetch_object_list env s else s))),
      Rendered
        (get_context_data cls env
           (self (if is_document cls then fetch_object_list env s else s))
           [''formset'' \<mapsto> FormsetVal
              (fst (BaseFormSetMixin_construct_formset cls env
                      (if is_document cls then fetch_object_list env s else s)))])]"
  by (cases "is_document cls")
    (simp_all add: get_unfold ProcessFormSetView_get_explicit Let_def construct_formset_trace
      fetch_object_list_explicit)

text \<open>
  Claim C9. A GET request constructs one formset and renders it: the response is the
  template rendered with that formset in the context, and the steps of the handler are
  the fetch of the object list (in a document view), the factory call, the construction
  of the formset and the rendering. That formset is determined by the view's
  configuration, the request and the result of the query: a second GET request that
  meets the same view, whatever \<open>object_list\<close> and log the first one left, constructs
  and renders the same formset; it is unbound, with the configured initial values and
  row bounds. Handling GET twice in a row gives the same response and the same steps.
  The query is taken not to read \<open>self.object_list\<close>, and the collaborators to answer
  alike, as they do when the underlying data has not changed.
\<close>

theorem consecutive_gets_same_formset:
  assumes q: "\<forall>v ol. get_queryset env (v\<lparr>object_list := ol\<rparr>) = get_queryset env v"
    and m: "method (request (self s)) = ''GET''"
    and s': "self s' = (self s)\<lparr>object_list := ol\<rparr>"
    and fs: "formset = fst (BaseFormSetMixin_construct_formset cls env
                              (if is_document cls then fetch_object_list env s else s))"
    and fs': "formset' = fst (BaseFormSetMixin_construct_formset cls env
                                (if is_document cls then fetch_object_list env s' else s'))"
  shows "formset' = formset
       \<and> fs_kwargs formset ''initial'' = Some (initial (self s))
       \<and> fs_kwargs formset ''data'' = None
       \<and> fs_kwargs formset ''files'' = None
       \<and> fc_kwargs (fs_cls formset) ''extra'' = Some (extra (self s))
       \<and> fc_kwargs (fs_cls formset) ''max_num'' = Some (max_num (self s))
       \<and> fst (get cls env (snd (get cls env s))) = fst (get cls env s)
       \<and> drop (length (trace (snd (get cls env s))))
             (trace (snd (get cls env (snd (get cls env s))))) =
           drop (length (trace s)) (trace (snd (get cls env s)))
       \<and> fst (get cls env s) =
           TemplateResponse
             (get_context_data cls env
                (self (if is_document cls then fetch_object_list env s else s))
                [''formset'' \<mapsto> FormsetVal formset])
       \<and> fst (get cls env s') =
           TemplateResponse
             (get_context_data cls env
                (self (if is_document cls then fetch_object_list env s' else s'))
                [''formset'' \<mapsto> FormsetVal formset'])
       \<and> drop (length (trace s)) (trace (snd (get cls env s))) =
           (if is_document cls
            then [QuerysetFetched, ObjectListAssigned (get_queryset env (self s))] else []) @
           FactoryCalled (fs_cls formset) #
           (if is_document cls then [QuerysetFetched] else []) @
           [FormsetConstructed formset,
            Rendered
              (get_context_data cls env
                 (self (if is_document cls then fetch_object_list env s else s))
                 [''formset'' \<mapsto> FormsetVal formset])]
       \<and> drop (length (trace s')) (trace (snd (get cls env s'))) =
           (if is_document cls
            then [QuerysetFetched, ObjectListAssigned (get_queryset env (self s))] else []) @
           FactoryCalled (fs_cls formset) #
           (if is_document cls then [QuerysetFetched] else []) @
           [FormsetConstructed formset,
            Rendered
              (get_context_data cls env
                 (self (if is_document cls then fetch_object_list env s' else s'))
                 [''formset'' \<mapsto> FormsetVal formset])]"
proof -
  let ?e = "if is_document cls then fetch_object_list env s else s"
  let ?e' = "if is_document cls then fetch_object_list env s' else s'"
  let ?s1 = "snd (get cls env s)"
  let ?e1 = "if is_document cls then fetch_object_list env ?s1 else ?s1"
  have "self ?e' = (self ?e)\<lparr>object_list := object_list (self ?e')\<rparr>"
    using q by (simp add: fetch_object_list_self s')
  then have 1: "formset' = formset"
    unfolding fs fs' by (rule construct_formset_object_list [OF q])
  have r: "method (request (self ?e)) \<notin> {''POST'', ''PUT''}"
    using m by (simp add: fetch_object_list_request)
  have 2: "fs_kwargs formset ''initial'' = Some (initial (self s))"
    by (simp add: fs construct_formset_fs_kwargs fetch_object_list_config)
  have 3: "fs_kwargs formset ''data'' = None \<and> fs_kwargs formset ''files'' = None"
    using r
    by (cases "is_document cls")
      (simp_all add: fs construct_formset_fs_kwargs formset_kwargs_not_submitted)
  have 4: "fc_kwargs (fs_cls formset) ''extra'' = Some (extra (self s))
         \<and> fc_kwargs (fs_cls formset) ''max_num'' = Some (max_num (self s))"
    by (simp add: fs construct_formset_fs_cls factory_kwargs_tuning fetch_object_list_config)
  have s1: "self ?s1 = self ?e"
    by (simp add: get_unfold ProcessFormSetView_get_self)
  have e1: "self ?e1 = self ?e"
    using q by (simp add: fetch_object_list_self s1)
  have t1: "length (trace ?e1) = length (trace ?s1) + (if is_document cls then 2 else 0)"
    and t: "length (trace ?e) = length (trace s) + (if is_document cls then 2 else 0)"
    by (simp_all add: fetch_object_list_explicit)
  note same = ProcessFormSetView_get_same_self [OF e1, of cls env]
  have "fst (get cls env ?s1) = fst (ProcessFormSetView_get cls env ?e1)"
    by (rule arg_cong [OF get_unfold])
  also have "\<dots> = fst (ProcessFormSetView_get cls env ?e)"
    by (rule same [THEN conjunct1])
  also have "\<dots> = fst (get cls env s)"
    by (rule arg_cong [OF get_unfold [symmetric]])
  finally have 5: "fst (get cls env ?s1) = fst (get cls env s)" .
  note pre = get_steps_split [of _ cls env]
  have qs: "get_queryset env (self ?s1) = get_queryset env (self s)"
    using q by (cases "is_document cls") (simp_all add: s1 fetch_object_list_self)
  have fe: "drop (length (trace ?s1)) (trace ?e1) = drop (length (trace s)) (trace ?e)"
    by (simp add: fetch_object_list_explicit qs)
  have "drop (length (trace ?s1)) (trace (snd (get cls env ?s1))) =
          drop (length (trace ?s1)) (trace ?e1) @
          drop (length (trace ?e1)) (trace (snd (ProcessFormSetView_get cls env ?e1)))"
    by (rule pre)
  also have "\<dots> =
          drop (length (trace s)) (trace ?e) @
          drop (length (trace ?e)) (trace (snd (ProcessFormSetView_get cls env ?e)))"
    by (simp only: fe same [THEN conjunct2])
  also have "\<dots> = drop (length (trace s)) (trace (snd (get cls env s)))"
    by (rule pre [symmetric])
  finally have 6: "drop (length (trace ?s1)) (trace (snd (get cls env ?s1))) =
                   drop (length (trace s)) (trace (snd (get cls env s)))" .
  have 7: "fst (get cls env s) =
             TemplateResponse
               (get_context_data cls env (self ?e) [''formset'' \<mapsto> FormsetVal formset])"
    unfolding fs by (rule get_response)
  have 8: "fst (get cls env s') =
             TemplateResponse
               (get_context_data cls env (self ?e') [''formset'' \<mapsto> FormsetVal formset'])"
    unfolding fs' by (rule get_response)
  have 9: "drop (length (trace s)) (trace (snd (get cls env s))) =
             (if is_document cls
              then [QuerysetFetched, ObjectListAssigned (get_queryset env (self s))] else []) @
             FactoryCalled (fs_cls formset) #
             (if is_document cls then [QuerysetFetched] else []) @
             [FormsetConstructed formset,
              Rendered
                (get_context_data cls env (self ?e) [''formset'' \<mapsto> FormsetVal formset])]"
    unfolding fs by (rule get_steps)
  have qs': "get_queryset env (self s') = get_queryset env (self s)"
    using q by (simp add: s')
  have "drop (length (trace s')) (trace (snd (get cls env s'))) =
             (if is_document cls
              then [QuerysetFetched, ObjectListAssigned (get_queryset env (self s'))] else []) @
             FactoryCalled (fs_cls formset') #
             (if is_document cls then [QuerysetFetched] else []) @
             [FormsetConstructed formset',
              Rendered
                (get_context_data cls env (self ?e') [''formset'' \<mapsto> FormsetVal formset'])]"
    unfolding fs' by (rule get_steps)
  then have 10: "drop (length (trace s')) (trace (snd (get cls env s'))) =
             (if is_document cls
              then [QuerysetFetched, ObjectListAssigned (get_queryset env (self s))] else []) @
             FactoryCalled (fs_cls formset) #
             (if is_document cls then [QuerysetFetched] else []) @
             [FormsetConstructed formset,
              Rendered
                (get_context_data cls env (self ?e') [''formset'' \<mapsto> FormsetVal formset])]"
    by (simp only: qs' 1)
  from 1 2 3 4 5 6 7 8 9 10 show ?thesis by blast
qed


theorem consecutive_gets_same_formset_witness:
  "(\<forall>v ol. get_queryset (sample_env True) (v\<lparr>object_list := ol\<rparr>) =
            get_queryset (sample_env True) v)
   \<and> method (request (self (sample_state ''GET''))) = ''GET''
   \<and> fst (BaseFormSetMixin_construct_formset DocumentFormSetView (sample_env True)
            (fetch_object_list (sample_env True)
               (snd (get DocumentFormSetView (sample_env True) (sample_state ''GET''))))) =
       fst (BaseFormSetMixin_construct_formset DocumentFormSetView (sample_env True)
            (fetch_object_list (sample_env True) (sample_state ''GET'')))
   \<and> fs_kwargs (fst (BaseFormSetMixin_construct_formset DocumentFormSetView (sample_env True)
                        (fetch_object_list (sample_env True) (sample_state ''GET''))))
        ''initial'' = Some (PList [])
   \<and> fs_kwargs (fst (BaseFormSetMixin_construct_formset DocumentFormSetView (sample_env True)
                        (fetch_object_list (sample_env True) (sample_state ''GET''))))
        ''data'' = None
   \<and> fst (get DocumentFormSetView (sample_env True)
            (snd (get DocumentFormSetView (sample_env True) (sample_state ''GET'')))) =
       fst (get DocumentFormSetView (sample_env True) (sample_state ''GET''))
   \<and> fst (get DocumentFormSetView (sample_env True) (sample_state ''GET'')) =
       TemplateResponse
         (get_context_data DocumentFormSetView (sample_env True)
            (self (fetch_object_list (sample_env True) (sample_state ''GET'')))
            [''formset'' \<mapsto> FormsetVal
               (fst (BaseFormSetMixin_construct_formset DocumentFormSetView (sample_env True)
                       (fetch_object_list (sample_env True) (sample_state ''GET''))))])
   \<and> FormsetConstructed
         (fst (BaseFormSetMixin_construct_formset DocumentFormSetView (sample_env True)
                 (fetch_object_list (sample_env True) (sample_state ''GET''))))
       \<in> set (trace (snd (get DocumentFormSetView (sample_env True) (sample_state ''GET''))))"
proof -
  let ?env = "sample_env True"
  let ?st = "sample_state ''GET''"
  let ?next = "snd (get DocumentFormSetView ?env ?st)"
  have q: "\<forall>v ol. get_queryset ?env (v\<lparr>object_list := ol\<rparr>) = get_queryset ?env v"
    by (simp add: sample_env_def)
  have m: "method (request (self ?st)) = ''GET''"
    by (simp add: sample_defs)
  have i: "initial (self ?st) = PList []"
    by (simp add: sample_defs)
  have n: "self ?next = (self ?st)\<lparr>object_list := get_queryset ?env (self ?st)\<rparr>"
    by (simp add: get_unfold ProcessFormSetView_get_self fetch_object_list_self)
  have t: "trace ?st = []"
    by (simp add: sample_defs)
  note r = consecutive_gets_same_formset [OF q m n refl refl, of DocumentFormSetView]
  have steps: "FormsetConstructed
                 (fst (BaseFormSetMixin_construct_formset DocumentFormSetView ?env
                         (fetch_object_list ?env ?st)))
               \<in> set (drop (length (trace ?st))
                         (trace (snd (get DocumentFormSetView ?env ?st))))"
    using r by simp
  then have c: "FormsetConstructed
                 (fst (BaseFormSetMixin_construct_formset DocumentFormSetView ?env
                         (fetch_object_list ?env ?st)))
               \<in> set (trace (snd (get DocumentFormSetView ?env ?st)))"
    by (simp add: t)
  from q m c r show ?thesis
    by (simp add: i)
qed

end
